theory Spec2Isabelle
  imports Complex_Main
begin

section \<open>The Google AI streaming adapter (GoogleAIProvider)\<close>

text \<open>
  A shallow embedding of \<^verbatim>\<open>GoogleAIProvider\<close>: \<^verbatim>\<open>checkConnection\<close>, \<^verbatim>\<open>chatStream\<close>
  and the \<^verbatim>\<open>onData\<close> handler that \<^verbatim>\<open>chatStream\<close> hands to the SSE client.

  Modelling decisions.
  \<^item> The callbacks of \<^verbatim>\<open>StreamCallbacks\<close> are all taken to be present and not to throw;
    what the adapter does to its caller is the list of callback invocations, in the
    order they are made.
  \<^item> \<^verbatim>\<open>JSON.parse\<close> belongs to the runtime. A raw chunk is represented by what
    \<^verbatim>\<open>JSON.parse\<close> makes of it: a \<^verbatim>\<open>SyntaxError\<close>, or a payload with the fields the handler
    reads (\<^verbatim>\<open>responseId\<close>, \<^verbatim>\<open>candidates[].content.parts[].text\<close>,
    \<^verbatim>\<open>candidates[].finishReason\<close>, \<^verbatim>\<open>promptFeedback.blockReason\<close>), typed as the vendor
    sends them (strings, arrays, objects), or \<^verbatim>\<open>null\<close>. A field that is missing or
    \<^verbatim>\<open>null\<close> is \<open>None\<close>: the handler treats both alike at every place it reads one.
    An element of an array may be \<^verbatim>\<open>null\<close>, and so may the whole payload: reading a
    property of \<^verbatim>\<open>null\<close> throws a \<^verbatim>\<open>TypeError\<close>, which the handler's \<^verbatim>\<open>catch\<close>
    receives.
  \<^item> A string's \<^verbatim>\<open>.length\<close> is \<open>length\<close> of the character list.
  \<^item> \<^verbatim>\<open>SSEClient\<close> and \<^verbatim>\<open>BaseProvider.getApiKey\<close> are not part of the adapter's source;
    they are parameters (see below).
\<close>

subsection \<open>Data\<close>

datatype error = Error string | SyntaxError | TypeError

datatype callback = OnStart | OnToken string | OnComplete | OnError error

record LlmMessage =
  role :: string
  content :: string

datatype opt_value = OptNum rat | OptStr string | OptBool bool

type_synonym options = "(string \<times> opt_value) list"

record CheckResult =
  ok :: bool
  reason :: "string option"
  message :: "string option"

text \<open>The payload of one chunk of the response.\<close>

record gemini_part =
  part_text :: "string option"

record gemini_content =
  parts :: "gemini_part option list option"

record gemini_candidate =
  cand_content :: "gemini_content option"
  finishReason :: "string option"

record prompt_feedback =
  blockReason :: "string option"

record gemini_chunk =
  responseId :: "string option"
  candidates :: "gemini_candidate option list option"
  promptFeedback :: "prompt_feedback option"

text \<open>
  What \<^verbatim>\<open>JSON.parse\<close> makes of a raw chunk: a syntax error, \<^verbatim>\<open>null\<close>, or a payload.
\<close>

datatype raw_chunk = Malformed | ParsedNull | Parsed gemini_chunk

text \<open>The request handed to \<^verbatim>\<open>startConnection\<close>.\<close>

record request_part =
  req_text :: string

record request_content =
  req_role :: string
  req_parts :: "request_part list"

record thinking_config =
  thinkingBudget :: int

record generation_config =
  temperature :: rat
  thinkingConfig :: thinking_config

record request_body =
  contents :: "request_content list"
  generationConfig :: generation_config

record sse_config =
  url :: string
  httpMethod :: string
  headers :: "(string \<times> string) list"
  body :: request_body
  debugTag :: string

text \<open>
  The instance fields of the adapter: \<^verbatim>\<open>baseUrl\<close> (inherited), and the three fields of
  per-exchange state.
\<close>

record GoogleAIProvider =
  baseUrl :: string
  lastContentLength :: nat
  processedChunks :: "string set"
  currentResponseId :: "string option"

text \<open>
  Modelled from the spec: the transport primitive \<^verbatim>\<open>SSEClient.startConnection\<close>, which is
  imported from \<^verbatim>\<open>@/lib/sse-client\<close> and absent from the sources. Section 4.1 of the
  specification: it invokes on-start once the connection is established, on-data once
  per raw chunk in arrival order, on-error for a failure. One run of it is the list of
  handler invocations it makes, and the error its promise is rejected with, if any.
  Nothing is assumed of a run.
\<close>

datatype transport_event = TStart | TData raw_chunk | TError error

record transport_run =
  events :: "transport_event list"
  rejected :: "error option"

text \<open>What one call of \<^verbatim>\<open>chatStream\<close> did.\<close>

record exchange =
  provider :: GoogleAIProvider
  fired :: "callback list"
  requests :: "sse_config list"

subsection \<open>JavaScript primitives the adapter uses\<close>

text \<open>Truthiness of a value of type \<^verbatim>\<open>string | null | undefined\<close>.\<close>

definition truthy :: "string option \<Rightarrow> bool" where
  "truthy v = (case v of None \<Rightarrow> False | Some s \<Rightarrow> s \<noteq> [])"

text \<open>\<^verbatim>\<open>`${v}`\<close> for \<^verbatim>\<open>v: string | null\<close>.\<close>

definition template :: "string option \<Rightarrow> string" where
  "template v = (case v of None \<Rightarrow> ''null'' | Some s \<Rightarrow> s)"

text \<open>\<^verbatim>\<open>`${n}`\<close> for a length \<open>n\<close>: its decimal digits.\<close>

definition digit :: "nat \<Rightarrow> char" where
  "digit d = ''0123456789'' ! d"

fun string_of_nat :: "nat \<Rightarrow> string" where
  "string_of_nat n =
     (if n < 10 then [digit n] else string_of_nat (n div 10) @ [digit (n mod 10)])"

declare string_of_nat.simps [simp del]

text \<open>\<^verbatim>\<open>s.replace(/\/$/, '')\<close>: one slash at the end of the string is removed.\<close>

definition stripTrailingSlash :: "string \<Rightarrow> string" where
  "stripTrailingSlash s = (if s \<noteq> [] \<and> last s = CHR ''/'' then butlast s else s)"

subsection \<open>checkConnection\<close>

text \<open>
  \<^verbatim>\<open>getApiKey\<close> is a parameter: \<^verbatim>\<open>BaseProvider\<close> is not among the sources. Line 24 awaits
  its promise with no \<^verbatim>\<open>try\<close> around it, so both outcomes of the promise are outcomes of
  the model: \<open>Inl e\<close> when it is rejected with \<open>e\<close>, \<open>Inr v\<close> when it is fulfilled with
  \<open>v\<close> (\<^verbatim>\<open>string | null\<close>). \<^verbatim>\<open>checkConnection\<close> is rejected with the same error in the
  first case (\<open>Inl\<close>) and returns a \<^verbatim>\<open>CheckResult\<close> in the second (\<open>Inr\<close>). The result is
  paired with the requests handed to the transport primitive: there are none on any path.
\<close>

type_synonym key_resolution = "error + string option"

definition checkConnection ::
  "(string option \<Rightarrow> key_resolution) \<Rightarrow> (error + CheckResult) \<times> sse_config list" where
  "checkConnection getApiKey =
     (case getApiKey None of
        Inl e \<Rightarrow> (Inl e, [])
      | Inr apiKey \<Rightarrow>
          if \<not> truthy apiKey
          then (Inr \<lparr>ok = False, reason = Some ''NO_KEY'', message = Some ''NO_KEY''\<rparr>, [])
          else (Inr \<lparr>ok = True, reason = None, message = None\<rparr>, []))"

subsection \<open>The onData handler\<close>

text \<open>
  \<^verbatim>\<open>parsedData.candidates?.[0]?.content?.parts?.[0]?.text?.length || 0\<close>
\<close>

definition firstTextLength :: "gemini_chunk \<Rightarrow> nat" where
  "firstTextLength d =
     (case candidates d of
        None \<Rightarrow> 0
      | Some [] \<Rightarrow> 0
      | Some (None # _) \<Rightarrow> 0
      | Some (Some c # _) \<Rightarrow>
          (case cand_content c of
             None \<Rightarrow> 0
           | Some ct \<Rightarrow>
               (case parts ct of
                  None \<Rightarrow> 0
                | Some [] \<Rightarrow> 0
                | Some (None # _) \<Rightarrow> 0
                | Some (Some p # _) \<Rightarrow>
                    (case part_text p of None \<Rightarrow> 0 | Some t \<Rightarrow> length t))))"

text \<open>\<^verbatim>\<open>`${this.currentResponseId}-${... || 0}`\<close>\<close>

definition chunkKey :: "string option \<Rightarrow> gemini_chunk \<Rightarrow> string" where
  "chunkKey rid d = template rid @ ''-'' @ string_of_nat (firstTextLength d)"

text \<open>
  Lines 105 to 112: the response identity of the chunk is adopted when it is truthy; the
  length counter and the dedup set are reset first when an identity is already tracked
  (is truthy) and is not the chunk's.
\<close>

definition trackResponseId :: "GoogleAIProvider \<Rightarrow> gemini_chunk \<Rightarrow> GoogleAIProvider" where
  "trackResponseId this d =
     (if truthy (responseId d)
      then (if truthy (currentResponseId this) \<and> currentResponseId this \<noteq> responseId d
            then this\<lparr>lastContentLength := 0, processedChunks := {}\<rparr>
            else this)
           \<lparr>currentResponseId := responseId d\<rparr>
      else this)"

text \<open>
  Lines 128 to 139: the loop over the parts of the first candidate. The result is the
  callbacks fired, and the error thrown, if any: \<^verbatim>\<open>part.text\<close> throws when the part is
  \<^verbatim>\<open>null\<close>, and the loop ends there.
\<close>

fun partTokens :: "gemini_part option list \<Rightarrow> callback list \<times> error option" where
  "partTokens [] = ([], None)"
| "partTokens (None # ps) = ([], Some TypeError)"
| "partTokens (Some part # ps) =
     (let (cbs, thrown) = partTokens ps in
      ((case part_text part of
          None \<Rightarrow> []
        | Some newContent \<Rightarrow>
            if newContent \<noteq> []
            then (if length newContent > 0 then [OnToken newContent] else [])
            else [])
       @ cbs, thrown))"

text \<open>
  Lines 123 to 147: the tokens of the first candidate, then its completion. Reading
  \<^verbatim>\<open>candidate.content\<close> throws when the candidate is \<^verbatim>\<open>null\<close>; after an error thrown
  in the loop the finish reason is not looked at.
\<close>

definition candidateCallbacks :: "gemini_chunk \<Rightarrow> callback list \<times> error option" where
  "candidateCallbacks d =
     (case candidates d of
        None \<Rightarrow> ([], None)
      | Some [] \<Rightarrow> ([], None)
      | Some (None # _) \<Rightarrow> ([], Some TypeError)
      | Some (Some candidate # _) \<Rightarrow>
          (let (cbs, thrown) =
                 (case cand_content candidate of
                    None \<Rightarrow> ([], None)
                  | Some ct \<Rightarrow> (case parts ct of None \<Rightarrow> ([], None) | Some ps \<Rightarrow> partTokens ps))
           in case thrown of
                Some e \<Rightarrow> (cbs, Some e)
              | None \<Rightarrow>
                  (cbs @ (if finishReason candidate = Some ''STOP'' then [OnComplete] else []),
                   None)))"

text \<open>Lines 150 to 154: a blocked prompt.\<close>

definition blockCallbacks :: "gemini_chunk \<Rightarrow> callback list" where
  "blockCallbacks d =
     (case promptFeedback d of
        None \<Rightarrow> []
      | Some pf \<Rightarrow>
          (case blockReason pf of
             None \<Rightarrow> []
           | Some r \<Rightarrow> if r \<noteq> [] then [OnError (Error (''Content blocked: '' @ r))] else []))"

text \<open>
  Lines 122 to 159, for a chunk that is not dropped: the callbacks of the first
  candidate, then the blocked prompt; an error thrown on the way goes to the \<^verbatim>\<open>catch\<close>,
  which passes it to on-error.
\<close>

definition chunkCallbacks :: "gemini_chunk \<Rightarrow> callback list" where
  "chunkCallbacks d =
     (case candidateCallbacks d of
        (cbs, Some e) \<Rightarrow> cbs @ [OnError e]
      | (cbs, None) \<Rightarrow> cbs @ blockCallbacks d)"

text \<open>
  The handler: the adapter after the chunk, and the callbacks fired for it. A chunk that
  does not parse goes to the \<^verbatim>\<open>catch\<close>, which passes the error on; so does the payload
  \<^verbatim>\<open>null\<close>, at line 105.
\<close>

definition onData :: "GoogleAIProvider \<Rightarrow> raw_chunk \<Rightarrow> GoogleAIProvider \<times> callback list" where
  "onData this rawData =
     (case rawData of
        Malformed \<Rightarrow> (this, [OnError SyntaxError])
      | ParsedNull \<Rightarrow> (this, [OnError TypeError])
      | Parsed parsedData \<Rightarrow>
          (let this1 = trackResponseId this parsedData;
               key = chunkKey (currentResponseId this1) parsedData
           in if key \<in> processedChunks this1 then (this1, [])
              else (this1\<lparr>processedChunks := insert key (processedChunks this1)\<rparr>,
                    chunkCallbacks parsedData)))"

subsection \<open>chatStream\<close>

text \<open>Lines 43 to 58 and 74 to 86: the request.\<close>

definition buildRequest :: "string \<Rightarrow> string \<Rightarrow> LlmMessage list \<Rightarrow> string \<Rightarrow> sse_config" where
  "buildRequest base model messages apiKey =
     \<lparr>url = stripTrailingSlash base @ ''/models/'' @ model @ '':streamGenerateContent?alt=sse'',
      httpMethod = ''POST'',
      headers = [(''Content-Type'', ''application/json''),
                 (''x-goog-api-key'', apiKey),
                 (''Accept'', ''text/event-stream''),
                 (''Cache-Control'', ''no-cache''),
                 (''Connection'', ''keep-alive'')],
      body = \<lparr>contents =
                 map (\<lambda>m. \<lparr>req_role = (if role m = ''user'' then ''user'' else ''model''),
                            req_parts = [\<lparr>req_text = content m\<rparr>]\<rparr>) messages,
              generationConfig =
                 \<lparr>temperature = 7 / 10, thinkingConfig = \<lparr>thinkingBudget = 0\<rparr>\<rparr>\<rparr>,
      debugTag = ''GoogleAIProvider''\<rparr>"

text \<open>The three handlers given to \<^verbatim>\<open>startConnection\<close>, applied to the events of a run.\<close>

fun handleEvent :: "GoogleAIProvider \<Rightarrow> transport_event \<Rightarrow> GoogleAIProvider \<times> callback list" where
  "handleEvent this TStart = (this, [OnStart])"
| "handleEvent this (TError e) = (this, [OnError e])"
| "handleEvent this (TData rawData) = onData this rawData"

fun handleEvents :: "GoogleAIProvider \<Rightarrow> transport_event list \<Rightarrow> GoogleAIProvider \<times> callback list" where
  "handleEvents this [] = (this, [])"
| "handleEvents this (ev # evs) =
     (let (this1, cbs1) = handleEvent this ev;
          (this2, cbs2) = handleEvents this1 evs
      in (this2, cbs1 @ cbs2))"

text \<open>
  \<^verbatim>\<open>chatStream\<close>. \<open>startConnection\<close> is the transport primitive: the run it makes of a
  request. A rejection of its promise reaches the \<^verbatim>\<open>catch\<close> of line 163. Here
  \<open>getApiKey\<close> gives the value the credential resolution of line 35 is fulfilled with;
  every statement about \<^verbatim>\<open>chatStream\<close> below is about such a value.
\<close>

definition chatStream ::
  "(string option \<Rightarrow> string option) \<Rightarrow> (sse_config \<Rightarrow> transport_run) \<Rightarrow> GoogleAIProvider \<Rightarrow>
     string \<Rightarrow> LlmMessage list \<Rightarrow> options \<Rightarrow> exchange" where
  "chatStream getApiKey startConnection this model messages opts =
     (let apiKey = getApiKey (Some model) in
      if \<not> truthy apiKey
      then \<lparr>provider = this, fired = [OnError (Error ''NO_KEY'')], requests = []\<rparr>
      else
        (let config = buildRequest (baseUrl this) model messages (the apiKey);
             this0 = this\<lparr>lastContentLength := 0, processedChunks := {},
                         currentResponseId := None\<rparr>;
             run = startConnection config;
             (this1, cbs) = handleEvents this0 (events run)
         in \<lparr>provider = this1,
             fired = cbs @ (case rejected run of None \<Rightarrow> [] | Some e \<Rightarrow> [OnError e]),
             requests = [config]\<rparr>))"

section \<open>Notions used in the statements\<close>

text \<open>
  The adapter as its constructor leaves it (lines 7 to 9): no content seen, an empty
  dedup set, no response identity.
\<close>

definition newGoogleAIProvider :: "string \<Rightarrow> GoogleAIProvider" where
  "newGoogleAIProvider base =
     \<lparr>baseUrl = base, lastContentLength = 0, processedChunks = {}, currentResponseId = None\<rparr>"

text \<open>
  The payload
  \<^verbatim>\<open>{"responseId": rid, "candidates": [{"content": {"parts": [{"text": t1}, ...]},
     "finishReason": fin}], "promptFeedback": {"blockReason": blk}}\<close>,
  where \<open>rid\<close>, \<open>fin\<close> and \<open>blk\<close> may be left out (\<open>None\<close>; without \<open>blk\<close> there is no
  \<^verbatim>\<open>promptFeedback\<close>).
\<close>

definition textChunk ::
  "string option \<Rightarrow> string list \<Rightarrow> string option \<Rightarrow> string option \<Rightarrow> gemini_chunk" where
  "textChunk rid texts fin blk =
     \<lparr>responseId = rid,
      candidates =
        Some [Some \<lparr>cand_content =
                      Some \<lparr>parts = Some (map (\<lambda>t. Some \<lparr>part_text = Some t\<rparr>) texts)\<rparr>,
                    finishReason = fin\<rparr>],
      promptFeedback = (case blk of None \<Rightarrow> None | Some r \<Rightarrow> Some \<lparr>blockReason = Some r\<rparr>)\<rparr>"

text \<open>A credential resolution that always finds a key, and a transport stub that
  delivers a fixed list of events for whatever request it is given.\<close>

definition stubKey :: "string option \<Rightarrow> string option" where
  "stubKey model = Some ''test-key''"

definition stubTransport :: "transport_event list \<Rightarrow> sse_config \<Rightarrow> transport_run" where
  "stubTransport evs config = \<lparr>events = evs, rejected = None\<rparr>"

text \<open>Terminal callbacks are on-complete and on-error.\<close>

fun is_terminal :: "callback \<Rightarrow> bool" where
  "is_terminal OnComplete = True"
| "is_terminal (OnError e) = True"
| "is_terminal cb = False"

fun is_token :: "callback \<Rightarrow> bool" where
  "is_token (OnToken t) = True"
| "is_token cb = False"

definition terminalCount :: "callback list \<Rightarrow> nat" where
  "terminalCount cbs = length (filter is_terminal cbs)"

text \<open>No on-token stands after the first terminal callback of the list.\<close>

fun noTokenAfterTerminal :: "callback list \<Rightarrow> bool" where
  "noTokenAfterTerminal [] = True"
| "noTokenAfterTerminal (cb # cbs) =
     (if is_terminal cb then filter is_token cbs = [] else noTokenAfterTerminal cbs)"

text \<open>
  The fingerprint the handler computes for a chunk: the key of line 115, with the
  identity as it is after lines 105 to 112.
\<close>

definition fingerprint :: "GoogleAIProvider \<Rightarrow> gemini_chunk \<Rightarrow> string" where
  "fingerprint this d = chunkKey (currentResponseId (trackResponseId this d)) d"

text \<open>The condition of line 106, inside the test of line 105: the chunk resets the
  dedup set.\<close>

definition resets :: "GoogleAIProvider \<Rightarrow> gemini_chunk \<Rightarrow> bool" where
  "resets this d =
     (truthy (responseId d) \<and> truthy (currentResponseId this) \<and>
      currentResponseId this \<noteq> responseId d)"

fun resetsIn :: "GoogleAIProvider \<Rightarrow> raw_chunk list \<Rightarrow> bool" where
  "resetsIn this [] = False"
| "resetsIn this (r # rs) =
     ((case r of Parsed d \<Rightarrow> resets this d | _ \<Rightarrow> False) \<or>
      resetsIn (fst (onData this r)) rs)"



text \<open>The adapter after the handler has been given a sequence of chunks.\<close>

definition afterChunks :: "GoogleAIProvider \<Rightarrow> raw_chunk list \<Rightarrow> GoogleAIProvider" where
  "afterChunks this raws = fst (handleEvents this (map TData raws))"

text \<open>Credential resolutions for \<^verbatim>\<open>checkConnection\<close>: one that finds no key, one that
  finds a key, and one whose promise is rejected.\<close>

definition noKeyResolution :: "string option \<Rightarrow> key_resolution" where
  "noKeyResolution model = Inr None"

definition keyResolution :: "string option \<Rightarrow> key_resolution" where
  "keyResolution model = Inr (Some ''test-key'')"

definition failingResolution :: "string option \<Rightarrow> key_resolution" where
  "failingResolution model = Inl (Error ''key store unavailable'')"

section \<open>Properties\<close>

lemmas eval_defs = chatStream_def truthy_def onData_def trackResponseId_def chunkKey_def
  firstTextLength_def template_def string_of_nat.simps digit_def candidateCallbacks_def
  blockCallbacks_def chunkCallbacks_def textChunk_def Let_def stubKey_def stubTransport_def
  newGoogleAIProvider_def terminalCount_def fingerprint_def resets_def

subsection \<open>Terminal callbacks\<close>

lemma partTokens_shape: "\<exists>toks. fst (partTokens ps) = map OnToken toks"
proof (induction ps)
  case Nil
  then show ?case by simp
next
  case (Cons p ps)
  then obtain toks where toks: "fst (partTokens ps) = map OnToken toks" by blast
  show ?case
  proof (cases p)
    case None
    then show ?thesis by simp
  next
    case (Some part)
    note part = Some
    show ?thesis
    proof (cases "part_text part")
      case None
      with part toks show ?thesis by (auto simp add: split_beta)
    next
      case (Some t)
      show ?thesis
      proof (cases "t = []")
        case True
        with Some part toks show ?thesis by (auto simp add: split_beta)
      next
        case False
        with Some part toks have "fst (partTokens (p # ps)) = map OnToken (t # toks)"
          by (simp add: split_beta)
        then show ?thesis by blast
      qed
    qed
  qed
qed

text \<open>The callbacks of a chunk that is not dropped: tokens, then at most one
  on-complete, then at most one on-error.\<close>

lemma chunkCallbacks_shape:
  "\<exists>toks fin errs. chunkCallbacks d = map OnToken toks @ fin @ errs \<and>
     (fin = [] \<or> fin = [OnComplete]) \<and> (errs = [] \<or> (\<exists>e. errs = [OnError e]))"
proof -
  have bc: "blockCallbacks d = [] \<or> (\<exists>e. blockCallbacks d = [OnError e])"
    by (simp add: blockCallbacks_def split: option.splits)
  have plain: "chunkCallbacks d = blockCallbacks d \<Longrightarrow> ?thesis"
  proof -
    assume "chunkCallbacks d = blockCallbacks d"
    then have "chunkCallbacks d = map OnToken [] @ [] @ blockCallbacks d" by simp
    with bc show ?thesis by blast
  qed
  show ?thesis
  proof (cases "candidates d")
    case None
    then have "chunkCallbacks d = blockCallbacks d"
      by (simp add: chunkCallbacks_def candidateCallbacks_def)
    then show ?thesis by (rule plain)
  next
    case (Some cs)
    show ?thesis
    proof (cases cs)
      case Nil
      with Some have "chunkCallbacks d = blockCallbacks d"
        by (simp add: chunkCallbacks_def candidateCallbacks_def)
      then show ?thesis by (rule plain)
    next
      case (Cons c rest)
      show ?thesis
      proof (cases c)
        case None
        with Some Cons have "chunkCallbacks d = map OnToken [] @ [] @ [OnError TypeError]"
          by (simp add: chunkCallbacks_def candidateCallbacks_def)
        then show ?thesis by blast
      next
        case (Some candidate)
        note cand = Some
        let ?pre = "case cand_content candidate of None \<Rightarrow> ([], None)
           | Some ct \<Rightarrow> (case parts ct of None \<Rightarrow> ([], None) | Some ps \<Rightarrow> partTokens ps)"
        have "\<exists>toks. fst ?pre = map OnToken toks"
          using partTokens_shape by (auto split: option.splits)
        then obtain toks where pre: "fst ?pre = map OnToken toks" by blast
        define fin where "fin = (if finishReason candidate = Some ''STOP'' then [OnComplete] else [])"
        have fin: "fin = [] \<or> fin = [OnComplete]" by (simp add: fin_def)
        note cs = \<open>candidates d = Some cs\<close> Cons cand
        show ?thesis
        proof (cases "snd ?pre")
          case None
          with cs pre have "chunkCallbacks d = map OnToken toks @ fin @ blockCallbacks d"
            by (simp add: chunkCallbacks_def candidateCallbacks_def split_beta fin_def)
          with fin bc show ?thesis by blast
        next
          case (Some e)
          with cs pre have "chunkCallbacks d = map OnToken toks @ [] @ [OnError e]"
            by (simp add: chunkCallbacks_def candidateCallbacks_def split_beta)
          then show ?thesis by blast
        qed
      qed
    qed
  qed
qed

lemma onData_shape:
  "\<exists>toks fin errs. snd (onData this rawData) = map OnToken toks @ fin @ errs \<and>
     (fin = [] \<or> fin = [OnComplete]) \<and> (errs = [] \<or> (\<exists>e. errs = [OnError e]))"
proof (cases rawData)
  case Malformed
  have "snd (onData this Malformed) = map OnToken [] @ [] @ [OnError SyntaxError]"
    by (simp add: onData_def)
  with Malformed show ?thesis by blast
next
  case ParsedNull
  have "snd (onData this ParsedNull) = map OnToken [] @ [] @ [OnError TypeError]"
    by (simp add: onData_def)
  with ParsedNull show ?thesis by blast
next
  case (Parsed d)
  have "snd (onData this (Parsed d)) = [] \<or> snd (onData this (Parsed d)) = chunkCallbacks d"
    by (simp add: onData_def Let_def)
  then show ?thesis
  proof
    assume "snd (onData this (Parsed d)) = []"
    then have "snd (onData this (Parsed d)) = map OnToken [] @ [] @ []" by simp
    with Parsed show ?thesis by blast
  next
    assume "snd (onData this (Parsed d)) = chunkCallbacks d"
    with Parsed chunkCallbacks_shape [of d] show ?thesis by simp
  qed
qed

text \<open>
  A part that is \<^verbatim>\<open>null\<close> ends the handling of its chunk: the tokens before it have
  fired, the finish reason and the prompt feedback are not looked at, and the
  \<^verbatim>\<open>TypeError\<close> is passed to on-error.
\<close>

lemma null_part_example:
  "chunkCallbacks
     \<lparr>responseId = Some ''r1'',
      candidates = Some [Some \<lparr>cand_content =
                                 Some \<lparr>parts = Some [Some \<lparr>part_text = Some ''Hel''\<rparr>, None]\<rparr>,
                               finishReason = Some ''STOP''\<rparr>],
      promptFeedback = Some \<lparr>blockReason = Some ''SAFETY''\<rparr>\<rparr> =
     [OnToken ''Hel'', OnError TypeError]"
  by (simp add: chunkCallbacks_def candidateCallbacks_def)

lemma filter_terminal_tokens: "filter is_terminal (map OnToken toks) = []"
  by (induction toks) auto

lemma noTokenAfterTerminal_tokens:
  "noTokenAfterTerminal (map OnToken toks @ rest) = noTokenAfterTerminal rest"
  by (induction toks) auto

text \<open>
  C1 (amended). The adapter keeps no record of having fired a terminal callback, so over
  an exchange the number of terminal callbacks is not fixed at one. What holds is per
  chunk: for every raw chunk, the callbacks the handler fires are zero or more on-token,
  then at most one on-complete, then at most one on-error. Within the handling of one
  chunk no on-token follows a terminal callback, and at most two terminal callbacks fire.
\<close>

theorem onData_chunk_order:
  "(\<exists>toks fin errs. snd (onData this rawData) = map OnToken toks @ fin @ errs \<and>
     (fin = [] \<or> fin = [OnComplete]) \<and> (errs = [] \<or> (\<exists>e. errs = [OnError e]))) \<and>
   noTokenAfterTerminal (snd (onData this rawData)) \<and>
   terminalCount (snd (onData this rawData)) \<le> 2"
proof -
  obtain toks fin errs where sh: "snd (onData this rawData) = map OnToken toks @ fin @ errs"
    and fin: "fin = [] \<or> fin = [OnComplete]"
    and errs: "errs = [] \<or> (\<exists>e. errs = [OnError e])"
    using onData_shape by blast
  have a: "noTokenAfterTerminal (fin @ errs)" using fin errs by auto
  have b: "length (filter is_terminal (fin @ errs)) \<le> 2" using fin errs by auto
  from sh a have "noTokenAfterTerminal (snd (onData this rawData))"
    by (simp add: noTokenAfterTerminal_tokens)
  moreover from sh b have "terminalCount (snd (onData this rawData)) \<le> 2"
    by (simp add: terminalCount_def filter_terminal_tokens)
  ultimately show ?thesis using sh fin errs by blast
qed

theorem onData_chunk_order_witness:
  "snd (onData (newGoogleAIProvider ''https://example.test'')
         (Parsed (textChunk (Some ''r1'') [''Hel'', ''lo''] (Some ''STOP'') (Some ''SAFETY'')))) =
     [OnToken ''Hel'', OnToken ''lo'', OnComplete, OnError (Error ''Content blocked: SAFETY'')] \<and>
   noTokenAfterTerminal (snd (onData (newGoogleAIProvider ''https://example.test'')
         (Parsed (textChunk (Some ''r1'') [''Hel'', ''lo''] (Some ''STOP'') (Some ''SAFETY''))))) \<and>
   terminalCount (snd (onData (newGoogleAIProvider ''https://example.test'')
         (Parsed (textChunk (Some ''r1'') [''Hel'', ''lo''] (Some ''STOP'') (Some ''SAFETY''))))) \<le> 2"
  using onData_chunk_order [of "newGoogleAIProvider ''https://example.test''"
      "Parsed (textChunk (Some ''r1'') [''Hel'', ''lo''] (Some ''STOP'') (Some ''SAFETY''))"]
  by (simp add: eval_defs)

text \<open>
  C1 as stated fails. The transport delivers the first chunk of the scenario, a chunk
  that is not JSON, and the last chunk of the scenario: on-error fires for the second
  chunk, the stream goes on, and on-token and on-complete fire after it. Two terminal
  callbacks, and a token after the first of them.
\<close>

theorem single_terminal_counterexample:
  "fired (chatStream stubKey
      (stubTransport [TData (Parsed (textChunk (Some ''r1'') [''Hel''] None None)),
                      TData Malformed,
                      TData (Parsed (textChunk (Some ''r1'') [''lo''] (Some ''STOP'') None))])
      (newGoogleAIProvider ''https://example.test'') ''gemini-pro''
      [\<lparr>role = ''user'', content = ''Hi''\<rparr>] []) =
     [OnToken ''Hel'', OnError SyntaxError, OnToken ''lo'', OnComplete] \<and>
   terminalCount [OnToken ''Hel'', OnError SyntaxError, OnToken ''lo'', OnComplete] = 2 \<and>
   \<not> noTokenAfterTerminal [OnToken ''Hel'', OnError SyntaxError, OnToken ''lo'', OnComplete]"
  by (simp add: eval_defs)

subsection \<open>The fingerprint\<close>

text \<open>
  The decimal digits of a number determine it, so under one identity two chunks have the
  same key exactly when their first texts have the same length.
\<close>

lemma digit_inj: "m < 10 \<Longrightarrow> n < 10 \<Longrightarrow> digit m = digit n \<Longrightarrow> m = n"
proof -
  assume m: "m < 10" and n: "n < 10" and eq: "digit m = digit n"
  from m have "m \<in> {0, 1, 2, 3, 4, 5, 6, 7, 8, 9}" by auto
  moreover from n have "n \<in> {0, 1, 2, 3, 4, 5, 6, 7, 8, 9}" by auto
  ultimately show "m = n" using eq by (auto simp add: digit_def)
qed

lemma string_of_nat_nonempty: "string_of_nat n \<noteq> []"
  by (subst string_of_nat.simps) simp

lemma string_of_nat_inj: "string_of_nat m = string_of_nat n \<Longrightarrow> m = n"
proof (induction m arbitrary: n rule: string_of_nat.induct)
  case (1 m)
  show ?case
  proof (cases "m < 10")
    case True
    note m = True
    show ?thesis
    proof (cases "n < 10")
      case True
      with m "1.prems" have "digit m = digit n"
        by (simp add: string_of_nat.simps [of m] string_of_nat.simps [of n])
      with m True show ?thesis by (rule digit_inj)
    next
      case False
      with m "1.prems" have "[digit m] = string_of_nat (n div 10) @ [digit (n mod 10)]"
        by (simp add: string_of_nat.simps [of m] string_of_nat.simps [of n])
      then have "string_of_nat (n div 10) = []" by simp
      with string_of_nat_nonempty show ?thesis by blast
    qed
  next
    case False
    note m = False
    show ?thesis
    proof (cases "n < 10")
      case True
      with m "1.prems" have "string_of_nat (m div 10) @ [digit (m mod 10)] = [digit n]"
        by (simp add: string_of_nat.simps [of m] string_of_nat.simps [of n])
      then have "string_of_nat (m div 10) = []" by simp
      with string_of_nat_nonempty show ?thesis by blast
    next
      case False
      with m "1.prems" have eq: "string_of_nat (m div 10) @ [digit (m mod 10)] =
          string_of_nat (n div 10) @ [digit (n mod 10)]"
        by (simp add: string_of_nat.simps [of m] string_of_nat.simps [of n])
      then have a: "string_of_nat (m div 10) = string_of_nat (n div 10)"
        and b: "digit (m mod 10) = digit (n mod 10)" by simp_all
      from "1.IH" [OF m a] have d: "m div 10 = n div 10" .
      have "m mod 10 = n mod 10" using b by (intro digit_inj) simp_all
      with d show ?thesis by (metis div_mult_mod_eq)
    qed
  qed
qed

lemma chunkKey_eq_iff:
  "chunkKey rid d1 = chunkKey rid d2 \<longleftrightarrow> firstTextLength d1 = firstTextLength d2"
  by (auto simp add: chunkKey_def dest: string_of_nat_inj)

subsection \<open>Duplicate suppression\<close>

lemma onData_dropped:
  "fingerprint this d \<in> processedChunks (trackResponseId this d) \<Longrightarrow>
     onData this (Parsed d) = (trackResponseId this d, [])"
  by (simp add: onData_def fingerprint_def Let_def)

lemma trackResponseId_no_reset:
  "\<not> resets this d \<Longrightarrow> processedChunks (trackResponseId this d) = processedChunks this"
  by (auto simp add: trackResponseId_def resets_def)

lemma trackResponseId_same:
  "responseId d = currentResponseId this \<or> \<not> truthy (responseId d) \<Longrightarrow>
     trackResponseId this d = this"
  by (auto simp add: trackResponseId_def)

lemma processedChunks_onData:
  "processedChunks (fst (onData this (Parsed d))) =
     insert (fingerprint this d) (processedChunks (trackResponseId this d))"
  by (auto simp add: onData_def fingerprint_def Let_def)

lemma key_recorded:
  "chunkKey (currentResponseId (fst (onData this (Parsed d)))) d
     \<in> processedChunks (fst (onData this (Parsed d)))"
  by (simp add: onData_def Let_def)





subsection \<open>A new response identity\<close>

lemma onData_new_identity:
  assumes "currentResponseId this = Some cur" and "cur \<noteq> []"
    and "responseId d = Some rid" and "rid \<noteq> []" and "rid \<noteq> cur"
  shows "onData this (Parsed d) =
           (this\<lparr>lastContentLength := 0, processedChunks := {chunkKey (Some rid) d},
                 currentResponseId := Some rid\<rparr>,
            chunkCallbacks d)"
  using assms by (simp add: onData_def trackResponseId_def truthy_def Let_def)

lemma onData_after_new_identity:
  assumes "responseId d2 = Some rid \<or> \<not> truthy (responseId d2)"
    and "chunkKey (Some rid) d2 \<noteq> k"
  shows "snd (onData (this\<lparr>lastContentLength := 0, processedChunks := {k},
                              currentResponseId := Some rid\<rparr>) (Parsed d2)) =
           chunkCallbacks d2"
proof -
  define this1 where "this1 = this\<lparr>lastContentLength := 0, processedChunks := {k},
                              currentResponseId := Some rid\<rparr>"
  have cur: "currentResponseId this1 = Some rid" and pc: "processedChunks this1 = {k}"
    by (simp_all add: this1_def)
  from assms(1) cur have "responseId d2 = currentResponseId this1 \<or> \<not> truthy (responseId d2)"
    by simp
  then have tr: "trackResponseId this1 d2 = this1" by (rule trackResponseId_same)
  have "snd (onData this1 (Parsed d2)) = chunkCallbacks d2"
    using assms(2) by (simp add: onData_def Let_def tr cur pc)
  then show ?thesis by (simp add: this1_def)
qed

text \<open>
  C3 (amended). Whenever a parsed chunk carries a non-empty response identity and the
  adapter tracks a non-empty identity that differs from it, the adapter resets the length
  counter, clears the dedup set and adopts the new identity; the chunk is processed
  whatever the dedup set held before, and the set then holds that chunk's fingerprint
  only. The next chunk under the new identity (carrying it, or carrying none) is
  processed as well, unless its first text has the length of the first text of the chunk
  that changed the identity. While no identity is tracked, a chunk's identity is adopted
  without clearing anything.
\<close>

theorem identity_change_resets:
  assumes "currentResponseId this = Some cur" and "cur \<noteq> []"
    and "responseId d = Some rid" and "rid \<noteq> []" and "rid \<noteq> cur"
  shows "onData this (Parsed d) =
           (this\<lparr>lastContentLength := 0, processedChunks := {chunkKey (Some rid) d},
                 currentResponseId := Some rid\<rparr>,
            chunkCallbacks d) \<and>
         ((responseId d2 = Some rid \<or> \<not> truthy (responseId d2)) \<and>
          firstTextLength d2 \<noteq> firstTextLength d \<longrightarrow>
            snd (onData (fst (onData this (Parsed d))) (Parsed d2)) =
              chunkCallbacks d2)"
  using onData_new_identity [OF assms]
    onData_after_new_identity [of d2 rid "chunkKey (Some rid) d" this]
  by (simp add: chunkKey_eq_iff)

theorem identity_change_resets_witness:
  "onData \<lparr>baseUrl = ''https://example.test'', lastContentLength = 0,
           processedChunks = {''r1-3'', ''r1-1''}, currentResponseId = Some ''r1''\<rparr>
     (Parsed (textChunk (Some ''r2'') [''x''] None None)) =
     (\<lparr>baseUrl = ''https://example.test'', lastContentLength = 0,
       processedChunks = {''r2-1''}, currentResponseId = Some ''r2''\<rparr>, [OnToken ''x'']) \<and>
   snd (onData (fst (onData \<lparr>baseUrl = ''https://example.test'', lastContentLength = 0,
           processedChunks = {''r1-3'', ''r1-1''}, currentResponseId = Some ''r1''\<rparr>
         (Parsed (textChunk (Some ''r2'') [''x''] None None))))
       (Parsed (textChunk (Some ''r2'') [''Hel''] None None))) = [OnToken ''Hel'']"
  using identity_change_resets [of
      "\<lparr>baseUrl = ''https://example.test'', lastContentLength = 0,
           processedChunks = {''r1-3'', ''r1-1''}, currentResponseId = Some ''r1''\<rparr>"
      "''r1''" "textChunk (Some ''r2'') [''x''] None None" "''r2''"
      "textChunk (Some ''r2'') [''Hel''] None None"]
  by (simp add: eval_defs)

text \<open>
  C3 as stated fails where no identity is tracked yet. A new adapter receives
  \<^verbatim>\<open>{"candidates":[{"content":{"parts":[{"text":"Hel"}]}}]}\<close>, which carries no identity:
  the key \<^verbatim>\<open>null-3\<close> is recorded. The next chunk carries the identity \<^verbatim>\<open>"null"\<close>, which
  differs from the tracked identity \<^verbatim>\<open>null\<close>, and a text of length 3. The guard of line
  106 is false, the dedup set is not cleared, the new identity is adopted, the key is
  \<^verbatim>\<open>null-3\<close> again, and the chunk is dropped.
\<close>

theorem identity_change_counterexample:
  "onData (newGoogleAIProvider ''https://example.test'')
     (Parsed (textChunk None [''Hel''] None None)) =
     (\<lparr>baseUrl = ''https://example.test'', lastContentLength = 0,
       processedChunks = {''null-3''}, currentResponseId = None\<rparr>, [OnToken ''Hel'']) \<and>
   responseId (textChunk (Some ''null'') [''abc''] None None) = Some ''null'' \<and>
   onData \<lparr>baseUrl = ''https://example.test'', lastContentLength = 0,
           processedChunks = {''null-3''}, currentResponseId = None\<rparr>
     (Parsed (textChunk (Some ''null'') [''abc''] None None)) =
     (\<lparr>baseUrl = ''https://example.test'', lastContentLength = 0,
       processedChunks = {''null-3''}, currentResponseId = Some ''null''\<rparr>, [])"
  by (simp add: eval_defs)

subsection \<open>The scenario of two chunks\<close>

text \<open>
  C4. With the messages \<^verbatim>\<open>[{role: "user", content: "Hi"}]\<close>, the model
  \<^verbatim>\<open>"gemini-pro"\<close>, a credential, and a transport that delivers
  \<^verbatim>\<open>{"responseId":"r1","candidates":[{"content":{"parts":[{"text":"Hel"}]}}]}\<close> and then
  \<^verbatim>\<open>{"responseId":"r1","candidates":[{"content":{"parts":[{"text":"lo"}]},"finishReason":"STOP"}]}\<close>,
  the callbacks fired are on-token("Hel"), on-token("lo"), on-complete(), in that order,
  whatever the adapter's state was before and whatever options are passed.
\<close>

theorem scenario_hel_lo:
  assumes "getApiKey (Some ''gemini-pro'') = Some apiKey" and "apiKey \<noteq> []"
    and "events (startConnection (buildRequest (baseUrl this) ''gemini-pro''
                   [\<lparr>role = ''user'', content = ''Hi''\<rparr>] apiKey)) =
           [TData (Parsed (textChunk (Some ''r1'') [''Hel''] None None)),
            TData (Parsed (textChunk (Some ''r1'') [''lo''] (Some ''STOP'') None))]"
    and "rejected (startConnection (buildRequest (baseUrl this) ''gemini-pro''
                   [\<lparr>role = ''user'', content = ''Hi''\<rparr>] apiKey)) = None"
  shows "fired (chatStream getApiKey startConnection this ''gemini-pro''
                  [\<lparr>role = ''user'', content = ''Hi''\<rparr>] opts) =
           [OnToken ''Hel'', OnToken ''lo'', OnComplete]"
  using assms by (simp add: eval_defs)

theorem scenario_hel_lo_witness:
  "fired (chatStream stubKey
      (stubTransport [TData (Parsed (textChunk (Some ''r1'') [''Hel''] None None)),
                      TData (Parsed (textChunk (Some ''r1'') [''lo''] (Some ''STOP'') None))])
      (newGoogleAIProvider ''https://example.test'') ''gemini-pro''
      [\<lparr>role = ''user'', content = ''Hi''\<rparr>] []) =
     [OnToken ''Hel'', OnToken ''lo'', OnComplete]"
  using scenario_hel_lo [of stubKey "''test-key''"
      "stubTransport [TData (Parsed (textChunk (Some ''r1'') [''Hel''] None None)),
                      TData (Parsed (textChunk (Some ''r1'') [''lo''] (Some ''STOP'') None))]"
      "newGoogleAIProvider ''https://example.test''" "[]"]
  by (simp add: stubKey_def stubTransport_def)

subsection \<open>Chunks that do not parse\<close>

lemma handleEvents_Cons:
  "handleEvents this (ev # evs) =
     (fst (handleEvents (fst (handleEvent this ev)) evs),
      snd (handleEvent this ev) @ snd (handleEvents (fst (handleEvent this ev)) evs))"
  by (simp split: prod.splits)

lemma handleEvents_Malformed:
  "handleEvents this (TData Malformed # evs) =
     (fst (handleEvents this evs), OnError SyntaxError # snd (handleEvents this evs))"
  by (simp add: onData_def split: prod.splits)

lemma count_partTokens: "count_list (fst (partTokens ps)) (OnError SyntaxError) = 0"
proof (induction ps)
  case Nil
  then show ?case by simp
next
  case (Cons p ps)
  then show ?case by (cases p) (auto simp add: split_beta split: option.splits)
qed

lemma thrown_partTokens: "snd (partTokens ps) \<noteq> Some SyntaxError"
proof (induction ps)
  case Nil
  then show ?case by simp
next
  case (Cons p ps)
  then show ?case by (cases p) (auto simp add: split_beta)
qed

lemma count_chunkCallbacks: "count_list (chunkCallbacks d) (OnError SyntaxError) = 0"
proof -
  have bc: "count_list (blockCallbacks d) (OnError SyntaxError) = 0"
    by (simp add: blockCallbacks_def split: option.splits)
  have "count_list (fst (candidateCallbacks d)) (OnError SyntaxError) = 0 \<and>
        snd (candidateCallbacks d) \<noteq> Some SyntaxError"
    using count_partTokens thrown_partTokens
    by (auto simp add: candidateCallbacks_def split_beta split: option.splits list.splits)
  with bc show ?thesis
    by (cases "snd (candidateCallbacks d)") (auto simp add: chunkCallbacks_def split_beta)
qed

lemma count_onData_Parsed:
  "count_list (snd (onData this (Parsed d))) (OnError SyntaxError) = 0"
  by (simp add: onData_def Let_def count_chunkCallbacks)

lemma count_handleEvents_data:
  "count_list (snd (handleEvents this (map TData raws))) (OnError SyntaxError) =
     count_list raws Malformed"
proof (induction raws arbitrary: this)
  case Nil
  then show ?case by simp
next
  case (Cons r raws)
  have step: "count_list (snd (onData this r)) (OnError SyntaxError) =
                (if r = Malformed then 1 else 0)"
  proof (cases r)
    case Malformed
    then show ?thesis by (simp add: onData_def)
  next
    case ParsedNull
    then show ?thesis by (simp add: onData_def)
  next
    case (Parsed d)
    then show ?thesis by (simp add: count_onData_Parsed)
  qed
  have "count_list (snd (handleEvents this (map TData (r # raws)))) (OnError SyntaxError) =
          count_list (snd (onData this r)) (OnError SyntaxError) +
          count_list (snd (handleEvents (fst (onData this r)) (map TData raws)))
            (OnError SyntaxError)"
    by (simp add: handleEvents_Cons del: handleEvents.simps)
  also have "\<dots> = (if r = Malformed then 1 else 0) + count_list raws Malformed"
    by (simp only: step Cons.IH)
  also have "\<dots> = count_list (r # raws) Malformed" by simp
  finally show ?case .
qed

text \<open>
  C5 (amended). When a raw chunk fails to parse as JSON, the adapter fires on-error for
  it, keeps its state, and goes on with the chunks that follow as if the chunk had not
  been there. It reports every parse failure: over any sequence of chunks, on-error
  fires with the syntax error once for each malformed chunk, not once per exchange.
\<close>

theorem parse_failure_reported_per_chunk:
  "handleEvents this (TData Malformed # evs) =
     (fst (handleEvents this evs), OnError SyntaxError # snd (handleEvents this evs)) \<and>
   count_list (snd (handleEvents this (map TData raws))) (OnError SyntaxError) =
     count_list raws Malformed"
  using handleEvents_Malformed count_handleEvents_data by blast

theorem parse_failure_reported_per_chunk_witness:
  "handleEvents (newGoogleAIProvider ''https://example.test'')
     [TData Malformed, TData (Parsed (textChunk (Some ''r1'') [''Hel''] None None))] =
     (\<lparr>baseUrl = ''https://example.test'', lastContentLength = 0,
       processedChunks = {''r1-3''}, currentResponseId = Some ''r1''\<rparr>,
      [OnError SyntaxError, OnToken ''Hel'']) \<and>
   count_list (snd (handleEvents (newGoogleAIProvider ''https://example.test'')
       (map TData [Malformed, Parsed (textChunk (Some ''r1'') [''Hel''] None None), Malformed])))
     (OnError SyntaxError) = 2"
  using parse_failure_reported_per_chunk [of "newGoogleAIProvider ''https://example.test''"
      "[TData (Parsed (textChunk (Some ''r1'') [''Hel''] None None))]"
      "[Malformed, Parsed (textChunk (Some ''r1'') [''Hel''] None None), Malformed]"]
  by (simp add: eval_defs)

text \<open>
  C5 as stated fails in its second half. Two of the three chunks of an exchange are
  malformed: the parse failure reaches the caller twice.
\<close>

theorem parse_failure_once_counterexample:
  "fired (chatStream stubKey
      (stubTransport [TData Malformed,
                      TData (Parsed (textChunk (Some ''r1'') [''Hel''] None None)),
                      TData Malformed])
      (newGoogleAIProvider ''https://example.test'') ''gemini-pro''
      [\<lparr>role = ''user'', content = ''Hi''\<rparr>] []) =
     [OnError SyntaxError, OnToken ''Hel'', OnError SyntaxError] \<and>
   count_list [OnError SyntaxError, OnToken ''Hel'', OnError SyntaxError] (OnError SyntaxError) = 2"
  by (simp add: eval_defs)

subsection \<open>A missing credential\<close>

text \<open>
  C6 (amended). \<^verbatim>\<open>checkConnection\<close> throws exactly when the credential resolution
  \<^verbatim>\<open>getApiKey()\<close> throws, and then with the same error: it has no \<^verbatim>\<open>catch\<close>. It hands no
  request to the transport primitive on any path. Whenever \<^verbatim>\<open>getApiKey()\<close> yields
  \<^verbatim>\<open>null\<close>, it returns the value \<^verbatim>\<open>{ok: false, reason: 'NO_KEY'}\<close> (with the message
  \<^verbatim>\<open>'NO_KEY'\<close>).
\<close>

theorem checkConnection_no_key:
  "snd (checkConnection getApiKey) = [] \<and>
   (fst (checkConnection getApiKey) = Inl e \<longleftrightarrow> getApiKey None = Inl e) \<and>
   (getApiKey None = Inr None \<longrightarrow>
      checkConnection getApiKey =
        (Inr \<lparr>ok = False, reason = Some ''NO_KEY'', message = Some ''NO_KEY''\<rparr>, []))"
  by (cases "getApiKey None") (simp_all add: checkConnection_def truthy_def)

theorem checkConnection_no_key_witness:
  "checkConnection noKeyResolution =
     (Inr \<lparr>ok = False, reason = Some ''NO_KEY'', message = Some ''NO_KEY''\<rparr>, []) \<and>
   snd (checkConnection keyResolution) = [] \<and>
   fst (checkConnection keyResolution) \<noteq> Inl (Error ''key store unavailable'')"
  using checkConnection_no_key [of noKeyResolution "Error ''key store unavailable''"]
    checkConnection_no_key [of keyResolution "Error ''key store unavailable''"]
  by (simp add: noKeyResolution_def keyResolution_def)

text \<open>
  C6 as stated fails in its first clause. The promise of \<^verbatim>\<open>getApiKey()\<close> is rejected:
  the \<^verbatim>\<open>await\<close> of line 24 throws, nothing catches it, and \<^verbatim>\<open>checkConnection\<close> is
  rejected with that error instead of returning a \<^verbatim>\<open>CheckResult\<close>.
\<close>

theorem checkConnection_throws_counterexample:
  "checkConnection failingResolution = (Inl (Error ''key store unavailable''), [])"
  by (simp add: checkConnection_def failingResolution_def)

text \<open>
  C7. When the credential resolves to \<^verbatim>\<open>null\<close>, \<^verbatim>\<open>chatStream\<close> fires on-error with the
  error \<^verbatim>\<open>NO_KEY\<close> and returns: it is the only callback fired, no request reaches the
  transport primitive, and the adapter's state is untouched.
\<close>

theorem chatStream_no_key:
  assumes "getApiKey (Some model) = None"
  shows "chatStream getApiKey startConnection this model messages opts =
           \<lparr>provider = this, fired = [OnError (Error ''NO_KEY'')], requests = []\<rparr>"
  using assms by (simp add: chatStream_def truthy_def)

theorem chatStream_no_key_witness:
  "chatStream (\<lambda>m. None) (stubTransport [TStart, TData Malformed])
       (newGoogleAIProvider ''https://example.test'') ''gemini-pro''
       [\<lparr>role = ''user'', content = ''Hi''\<rparr>] [] =
     \<lparr>provider = newGoogleAIProvider ''https://example.test'',
      fired = [OnError (Error ''NO_KEY'')], requests = []\<rparr>"
  using chatStream_no_key [of "\<lambda>m. None" "''gemini-pro''"] by simp

subsection \<open>The request\<close>

lemma stripTrailingSlash_slash: "stripTrailingSlash (b @ ''/'') = b"
  by (simp add: stripTrailingSlash_def)

lemma stripTrailingSlash_other:
  "b = [] \<or> last b \<noteq> CHR ''/'' \<Longrightarrow> stripTrailingSlash b = b"
  by (auto simp add: stripTrailingSlash_def)

text \<open>
  C8. For every model, message list and credential (a non-empty string), \<^verbatim>\<open>chatStream\<close>
  issues exactly one request. Its URL is the base URL, without its trailing slash when
  it ends in one, followed by \<^verbatim>\<open>/models/{model}:streamGenerateContent?alt=sse\<close>; its
  method is POST; its headers include \<^verbatim>\<open>Content-Type: application/json\<close>, the
  credential under \<^verbatim>\<open>x-goog-api-key\<close>, \<^verbatim>\<open>Accept: text/event-stream\<close> and
  \<^verbatim>\<open>Connection: keep-alive\<close>; its body has one entry of \<^verbatim>\<open>contents\<close> per message, of
  role \<^verbatim>\<open>user\<close> for a user message and \<^verbatim>\<open>model\<close> otherwise, with the message's content
  as the text of its single part, and a \<^verbatim>\<open>generationConfig\<close> with a temperature.
\<close>

theorem chatStream_request:
  assumes "getApiKey (Some model) = Some apiKey" and "apiKey \<noteq> []"
  shows "\<exists>config.
     requests (chatStream getApiKey startConnection this model messages opts) = [config] \<and>
     url config = stripTrailingSlash (baseUrl this) @ ''/models/'' @ model @
                    '':streamGenerateContent?alt=sse'' \<and>
     (\<forall>b. baseUrl this = b @ ''/'' \<longrightarrow>
        url config = b @ ''/models/'' @ model @ '':streamGenerateContent?alt=sse'') \<and>
     httpMethod config = ''POST'' \<and>
     map_of (headers config) ''Content-Type'' = Some ''application/json'' \<and>
     map_of (headers config) ''x-goog-api-key'' = Some apiKey \<and>
     map_of (headers config) ''Accept'' = Some ''text/event-stream'' \<and>
     map_of (headers config) ''Connection'' = Some ''keep-alive'' \<and>
     contents (body config) =
       map (\<lambda>m. \<lparr>req_role = (if role m = ''user'' then ''user'' else ''model''),
                  req_parts = [\<lparr>req_text = content m\<rparr>]\<rparr>) messages \<and>
     temperature (generationConfig (body config)) = 7 / 10"
  using assms
  by (simp add: chatStream_def truthy_def buildRequest_def Let_def stripTrailingSlash_slash
      split: prod.splits)

theorem chatStream_request_witness:
  "requests (chatStream stubKey (stubTransport [])
       (newGoogleAIProvider ''https://example.test/v1beta/'') ''gemini-pro''
       [\<lparr>role = ''user'', content = ''Hi''\<rparr>, \<lparr>role = ''assistant'', content = ''Hello''\<rparr>] []) =
     [\<lparr>url = ''https://example.test/v1beta/models/gemini-pro:streamGenerateContent?alt=sse'',
       httpMethod = ''POST'',
       headers = [(''Content-Type'', ''application/json''), (''x-goog-api-key'', ''test-key''),
                  (''Accept'', ''text/event-stream''), (''Cache-Control'', ''no-cache''),
                  (''Connection'', ''keep-alive'')],
       body = \<lparr>contents = [\<lparr>req_role = ''user'', req_parts = [\<lparr>req_text = ''Hi''\<rparr>]\<rparr>,
                              \<lparr>req_role = ''model'', req_parts = [\<lparr>req_text = ''Hello''\<rparr>]\<rparr>],
                generationConfig = \<lparr>temperature = 7 / 10,
                                     thinkingConfig = \<lparr>thinkingBudget = 0\<rparr>\<rparr>\<rparr>,
       debugTag = ''GoogleAIProvider''\<rparr>]"
  using chatStream_request [of stubKey "''gemini-pro''" "''test-key''" "stubTransport []"
      "newGoogleAIProvider ''https://example.test/v1beta/''"
      "[\<lparr>role = ''user'', content = ''Hi''\<rparr>, \<lparr>role = ''assistant'', content = ''Hello''\<rparr>]" "[]"]
  by (simp add: eval_defs buildRequest_def stripTrailingSlash_def)

subsection \<open>A chunk of a length already seen\<close>

lemma afterChunks_Nil: "afterChunks this [] = this"
  by (simp add: afterChunks_def)

lemma afterChunks_Cons: "afterChunks this (r # rs) = afterChunks (fst (onData this r)) rs"
  by (simp add: afterChunks_def split_beta)

text \<open>The handler never takes a key out of the dedup set, except by a reset.\<close>

lemma processedChunks_step:
  "\<not> (case r of Parsed d \<Rightarrow> resets this d | _ \<Rightarrow> False) \<Longrightarrow>
     processedChunks this \<subseteq> processedChunks (fst (onData this r))"
proof (cases r)
  case Malformed
  then show ?thesis by (simp add: onData_def)
next
  case ParsedNull
  then show ?thesis by (simp add: onData_def)
next
  case (Parsed d)
  assume "\<not> (case r of Parsed d \<Rightarrow> resets this d | _ \<Rightarrow> False)"
  with Parsed have "\<not> resets this d" by simp
  then have "processedChunks (trackResponseId this d) = processedChunks this"
    by (rule trackResponseId_no_reset)
  with Parsed show ?thesis by (auto simp add: processedChunks_onData)
qed

lemma processedChunks_grow:
  "\<not> resetsIn this raws \<Longrightarrow> processedChunks this \<subseteq> processedChunks (afterChunks this raws)"
proof (induction raws arbitrary: this)
  case Nil
  then show ?case by (simp add: afterChunks_Nil)
next
  case (Cons r raws)
  from Cons.prems have step: "\<not> (case r of Parsed d \<Rightarrow> resets this d | _ \<Rightarrow> False)"
    and rest: "\<not> resetsIn (fst (onData this r)) raws" by simp_all
  from step have "processedChunks this \<subseteq> processedChunks (fst (onData this r))"
    by (rule processedChunks_step)
  also from rest have "\<dots> \<subseteq> processedChunks (afterChunks (fst (onData this r)) raws)"
    by (rule Cons.IH)
  finally show ?case by (simp add: afterChunks_Cons)
qed

text \<open>
  C9 (amended). A chunk whose fingerprint is in the dedup set fires no callback of any
  kind: the handler returns before the checks of the finish reason and of the prompt
  feedback. The fingerprint is made of the tracked identity and the length of the text of
  the first part of the first candidate (0 when there is none). So once a chunk \<open>d1\<close> has
  been handled, whatever chunks \<open>mid\<close> follow it, as long as none of them resets the dedup
  set and the tracked identity is again the one \<open>d1\<close> was handled under, a chunk \<open>d2\<close>
  under that identity (carrying it, or carrying none) whose first text has the length of
  that of \<open>d1\<close> has the fingerprint of \<open>d1\<close> and is dropped entirely: no callback fires
  and the state stays as it was, whatever the texts, finish reason and block reason of
  \<open>d2\<close> are.
\<close>

theorem same_length_chunk_swallowed:
  assumes "firstTextLength d2 = firstTextLength d1"
    and "\<not> resetsIn (afterChunks this [Parsed d1]) mid"
    and "currentResponseId (afterChunks this (Parsed d1 # mid)) =
         currentResponseId (afterChunks this [Parsed d1])"
    and "responseId d2 = currentResponseId (afterChunks this (Parsed d1 # mid)) \<or>
         \<not> truthy (responseId d2)"
  shows "fingerprint (afterChunks this (Parsed d1 # mid)) d2 =
           chunkKey (currentResponseId (afterChunks this [Parsed d1])) d1 \<and>
         onData (afterChunks this (Parsed d1 # mid)) (Parsed d2) =
           (afterChunks this (Parsed d1 # mid), []) \<and>
         (fingerprint other d \<in> processedChunks (trackResponseId other d) \<longrightarrow>
            onData other (Parsed d) = (trackResponseId other d, []))"
proof -
  define this1 where "this1 = fst (onData this (Parsed d1))"
  define thisN where "thisN = afterChunks this1 mid"
  have one: "afterChunks this [Parsed d1] = this1"
    by (simp add: this1_def afterChunks_Cons afterChunks_Nil)
  have all: "afterChunks this (Parsed d1 # mid) = thisN"
    by (simp add: thisN_def this1_def afterChunks_Cons)
  from assms(2) one have "processedChunks this1 \<subseteq> processedChunks thisN"
    unfolding thisN_def by (simp add: processedChunks_grow)
  moreover have "chunkKey (currentResponseId this1) d1 \<in> processedChunks this1"
    unfolding this1_def by (rule key_recorded)
  ultimately have rec: "chunkKey (currentResponseId this1) d1 \<in> processedChunks thisN"
    by blast
  from assms(3) one all have cur: "currentResponseId thisN = currentResponseId this1"
    by simp
  from assms(4) all have tr: "trackResponseId thisN d2 = thisN"
    by (simp add: trackResponseId_same)
  have key: "chunkKey (currentResponseId thisN) d2 = chunkKey (currentResponseId this1) d1"
    using assms(1) cur by (simp add: chunkKey_def)
  with tr have fp: "fingerprint thisN d2 = chunkKey (currentResponseId this1) d1"
    by (simp add: fingerprint_def)
  from fp rec tr have "onData thisN (Parsed d2) = (thisN, [])"
    using onData_dropped [of thisN d2] by simp
  with fp one all onData_dropped [of other d] show ?thesis by simp
qed

theorem same_length_chunk_swallowed_witness:
  "chunkCallbacks (textChunk (Some ''r1'') [''bye'', ''!''] (Some ''STOP'') (Some ''SAFETY'')) =
     [OnToken ''bye'', OnToken ''!'', OnComplete, OnError (Error ''Content blocked: SAFETY'')] \<and>
   fingerprint (afterChunks (newGoogleAIProvider ''https://example.test'')
       [Parsed (textChunk (Some ''r1'') [''Hel''] None None),
        Parsed (textChunk (Some ''r1'') [''lo''] None None), Malformed,
        Parsed (textChunk None [''5''] None None)])
     (textChunk (Some ''r1'') [''bye'', ''!''] (Some ''STOP'') (Some ''SAFETY'')) = ''r1-3'' \<and>
   onData (afterChunks (newGoogleAIProvider ''https://example.test'')
       [Parsed (textChunk (Some ''r1'') [''Hel''] None None),
        Parsed (textChunk (Some ''r1'') [''lo''] None None), Malformed,
        Parsed (textChunk None [''5''] None None)])
     (Parsed (textChunk (Some ''r1'') [''bye'', ''!''] (Some ''STOP'') (Some ''SAFETY''))) =
     (\<lparr>baseUrl = ''https://example.test'', lastContentLength = 0,
       processedChunks = {''r1-1'', ''r1-2'', ''r1-3''}, currentResponseId = Some ''r1''\<rparr>, [])"
  using same_length_chunk_swallowed [of
      "textChunk (Some ''r1'') [''bye'', ''!''] (Some ''STOP'') (Some ''SAFETY'')"
      "textChunk (Some ''r1'') [''Hel''] None None"
      "newGoogleAIProvider ''https://example.test''"
      "[Parsed (textChunk (Some ''r1'') [''lo''] None None), Malformed,
        Parsed (textChunk None [''5''] None None)]"]
  by (simp add: eval_defs afterChunks_def)

text \<open>
  C9 as stated fails when the dedup set has been reset in between. The chunk
  \<^verbatim>\<open>r1\<close>/\<^verbatim>\<open>"Hel"\<close> is handled, then a chunk of identity \<^verbatim>\<open>r2\<close>, then a chunk of
  identity \<^verbatim>\<open>r1\<close> again whose first text \<^verbatim>\<open>"bye"\<close> has the length of \<^verbatim>\<open>"Hel"\<close>: it is
  not dropped, its token, its on-complete and its blocked prompt all reach the caller.
\<close>

theorem same_length_after_reset_counterexample:
  "firstTextLength (textChunk (Some ''r1'') [''bye''] (Some ''STOP'') (Some ''SAFETY'')) =
     firstTextLength (textChunk (Some ''r1'') [''Hel''] None None) \<and>
   snd (handleEvents (newGoogleAIProvider ''https://example.test'')
          (map TData [Parsed (textChunk (Some ''r1'') [''Hel''] None None),
                      Parsed (textChunk (Some ''r2'') [''x''] None None),
                      Parsed (textChunk (Some ''r1'') [''bye''] (Some ''STOP'') (Some ''SAFETY''))])) =
     [OnToken ''Hel'', OnToken ''x'', OnToken ''bye'', OnComplete,
      OnError (Error ''Content blocked: SAFETY'')]"
  by (simp add: eval_defs)

subsection \<open>The options argument\<close>

text \<open>
  C10. The exchange, and with it the request (URL, headers and body), does not depend on
  the options argument: two calls that differ in their options only are equal. In every
  request issued the temperature is 0.7 and the thinking budget is 0.
\<close>

theorem chatStream_ignores_options:
  "chatStream getApiKey startConnection this model messages opts1 =
     chatStream getApiKey startConnection this model messages opts2 \<and>
   (\<forall>config \<in> set (requests (chatStream getApiKey startConnection this model messages opts1)).
      temperature (generationConfig (body config)) = 7 / 10 \<and>
      thinkingBudget (thinkingConfig (generationConfig (body config))) = 0)"
  by (simp add: chatStream_def buildRequest_def Let_def split: prod.splits)

theorem chatStream_ignores_options_witness:
  "requests (chatStream stubKey (stubTransport []) (newGoogleAIProvider ''https://example.test'')
       ''gemini-pro'' [\<lparr>role = ''user'', content = ''Hi''\<rparr>]
       [(''temperature'', OptNum 2), (''thinkingBudget'', OptNum 1024)]) =
   requests (chatStream stubKey (stubTransport []) (newGoogleAIProvider ''https://example.test'')
       ''gemini-pro'' [\<lparr>role = ''user'', content = ''Hi''\<rparr>] []) \<and>
   map (\<lambda>config. (temperature (generationConfig (body config)),
                    thinkingBudget (thinkingConfig (generationConfig (body config)))))
     (requests (chatStream stubKey (stubTransport []) (newGoogleAIProvider ''https://example.test'')
       ''gemini-pro'' [\<lparr>role = ''user'', content = ''Hi''\<rparr>]
       [(''temperature'', OptNum 2), (''thinkingBudget'', OptNum 1024)])) = [(7 / 10, 0)]"
  using chatStream_ignores_options [of stubKey "stubTransport []"
      "newGoogleAIProvider ''https://example.test''" "''gemini-pro''"
      "[\<lparr>role = ''user'', content = ''Hi''\<rparr>]"
      "[(''temperature'', OptNum 2), (''thinkingBudget'', OptNum 1024)]" "[]"]
  by (simp add: eval_defs buildRequest_def stripTrailingSlash_def)

end
